theory Spec2Isabelle
  imports Main "HOL-Library.Char_ord" "HOL-Library.List_Lexorder" "HOL-Library.Multiset"
begin

section \<open>Centros de Salud RM: the loader, the classifier, the filters and the API client\<close>

text \<open>
  The program is one Python script, \<^verbatim>\<open>app.py\<close>. It loads a CSV of health-care
  establishments with pandas, derives three columns, filters and sorts the table from the
  sidebar's controls, and offers a panel that queries a REST endpoint.

  Conventions of the embedding:
  \<^item> a Python \<^verbatim>\<open>str\<close> is a \<^typ>\<open>string\<close>, each \<^typ>\<open>char\<close> read as one code point
    below 256 (Latin-1, which holds the Spanish labels of the data set); \<^verbatim>\<open>lower()\<close>,
    \<^verbatim>\<open>strip()\<close> and the ordering of strings are Python's on that range;
  \<^item> a data frame is the list of its rows, in index order; a row is a record of its cells;
  \<^item> a cell of a text column is a \<^typ>\<open>string option\<close>, \<open>None\<close> being pandas' missing
    value (NaN); a cell of a column that may hold numbers is a \<open>celda\<close>;
  \<^item> numbers are of a type \<open>'n\<close> left open, and the conversions between numbers and text
    that pandas and Python perform in floating point (\<^verbatim>\<open>to_numeric\<close>, \<^verbatim>\<open>str\<close>) are
    parameters of the functions that call them;
  \<^item> the regular-expression engine and the sorting routine of the libraries are parameters
    as well, since their code is not part of the script;
  \<^item> an exception that the script does not catch is a value \<open>Inl e\<close> of the result;
  \<^item> the file is given as \<^verbatim>\<open>read_csv\<close> returns it, and the type of a column follows
    from its cells where the loader depends on it; the filters work on the loaded table,
    whose name column is taken to be of text (some row of the file has a name), as the
    search in it requires.
\<close>

subsection \<open>Strings\<close>

text \<open>\<^verbatim>\<open>s.startswith(pat)\<close>.\<close>

fun startswith :: "string \<Rightarrow> string \<Rightarrow> bool" where
  "startswith s [] = True"
| "startswith [] (p # ps) = False"
| "startswith (c # cs) (p # ps) = (c = p \<and> startswith cs ps)"

text \<open>\<^verbatim>\<open>pat in s\<close>: \<open>pat\<close> occurs in \<open>s\<close> as a run of consecutive characters.\<close>

fun contiene :: "string \<Rightarrow> string \<Rightarrow> bool" where
  "contiene pat [] = (pat = [])"
| "contiene pat (c # cs) = (startswith (c # cs) pat \<or> contiene pat cs)"

text \<open>
  \<^verbatim>\<open>s.lower()\<close> on code points below 256: the letters A to Z and the accented capitals
  U+00C0 to U+00DE (the multiplication sign U+00D7 apart) move up by 32.
\<close>

definition lower_char :: "char \<Rightarrow> char" where
  "lower_char c =
     (let n = (of_char c :: nat)
      in if (65 \<le> n \<and> n \<le> 90) \<or> (192 \<le> n \<and> n \<le> 222 \<and> n \<noteq> 215)
         then char_of (n + 32) else c)"

definition lower :: "string \<Rightarrow> string" where
  "lower s = map lower_char s"

text \<open>
  \<^verbatim>\<open>c.isspace()\<close> on code points below 256: tab to carriage return, the four
  separators U+001C to U+001F, the space, NEL (U+0085) and the no-break space (U+00A0).
\<close>

definition isspace :: "char \<Rightarrow> bool" where
  "isspace c =
     (let n = (of_char c :: nat)
      in (9 \<le> n \<and> n \<le> 13) \<or> (28 \<le> n \<and> n \<le> 32) \<or> n = 133 \<or> n = 160)"

text \<open>\<^verbatim>\<open>s.strip()\<close>: white space removed at both ends.\<close>

definition strip :: "string \<Rightarrow> string" where
  "strip s = rev (dropWhile isspace (rev (dropWhile isspace s)))"

subsection \<open>Cells\<close>

text \<open>
  A cell of a column whose values need not be text: missing (NaN), a number, or a
  \<^verbatim>\<open>str\<close>.
\<close>

datatype 'n celda = Nulo | Num 'n | Texto string

subsection \<open>The sector classifier (\<^verbatim>\<open>clasificar\<close>, lines 36 to 44)\<close>

text \<open>The three labels. \<open>Publico\<close> is the string \<^verbatim>\<open>P\<close>, u with acute (U+00FA), \<^verbatim>\<open>blico\<close>.\<close>

definition Otro :: string where
  "Otro = ''Otro''"

definition Privado :: string where
  "Privado = ''Privado''"

definition Publico :: string where
  "Publico = CHR ''P'' # CHR 0xFA # ''blico''"

text \<open>
  \<^verbatim>\<open>isinstance(dep, str)\<close> fails for NaN and for a number; the rule for
  \<^verbatim>\<open>privad\<close> comes before the three rules for the public sector.
\<close>

fun clasificar :: "'n celda \<Rightarrow> string" where
  "clasificar (Texto dep) =
     (let d = lower dep
      in if contiene ''privad'' d then Privado
         else if contiene ''municipal'' d \<or> contiene ''servicio de salud'' d
                 \<or> contiene ''seremi'' d then Publico
         else Otro)"
| "clasificar _ = Otro"

subsection \<open>Rows\<close>

text \<open>
  A row of the CSV file as \<^verbatim>\<open>read_csv\<close> returns it, with the columns the script
  reads. The text columns hold a \<^verbatim>\<open>str\<close> or nothing (a file in which such a column
  reads as numbers throughout is not described); the administrative dependency, the
  street number, the coordinates and the telephone may hold numbers as well.
\<close>

record 'n fila_csv =
  RegionGlosa :: "string option"
  ComunaGlosa :: "string option"
  EstablecimientoGlosa :: "string option"
  TipoEstablecimientoGlosa :: "string option"
  NivelAtencionEstabglosa :: "string option"
  DependenciaAdministrativa :: "'n celda"
  TipoViaGlosa :: "string option"
  NombreVia :: "string option"
  Numero :: "'n celda"
  Latitud :: "'n celda"
  Longitud :: "'n celda"
  TelefonoMovil_TelefonoFijo :: "'n celda"

text \<open>A row of the loaded table: the row of the file and the two columns the loader adds.\<close>

record 'n establecimiento = "'n fila_csv" +
  Direccion :: string
  SistemaSalud :: string

subsection \<open>Exceptions\<close>

text \<open>
  Exceptions of Python and of the libraries that the script does not catch.
  \<open>UFuncTypeError\<close> is numpy's, a kind of \<^verbatim>\<open>TypeError\<close>: no addition of a number and
  a text.
\<close>

datatype excepcion = PatternError | JSONDecodeError | AttributeError | TypeError | ValueError
  | UFuncTypeError

subsection \<open>The loader (\<^verbatim>\<open>cargar_datos\<close>, lines 9 to 48)\<close>

text \<open>
  The type that \<^verbatim>\<open>read_csv\<close> gives a column follows from its cells. A column of the
  file in which no cell holds anything is of type \<^verbatim>\<open>float64\<close>, every cell a NaN; a
  column with a text in it, and every column of a file without rows, is of type
  \<^verbatim>\<open>object\<close>. The rows that the loader selects keep the type of the column.
\<close>

definition es_float64 :: "'a option list \<Rightarrow> bool" where
  "es_float64 columna \<longleftrightarrow> columna \<noteq> [] \<and> list_all (\<lambda>c. c = None) columna"

text \<open>
  \<^verbatim>\<open>Series.str.contains(pat, na=False)\<close> on one cell of a text column, for a pattern
  without regular-expression metacharacters (the loader's is \<^verbatim>\<open>Metropolitana\<close>): the
  search is case sensitive, and a missing value gives \<open>False\<close>.
\<close>

fun str_contains :: "string \<Rightarrow> string option \<Rightarrow> bool" where
  "str_contains pat None = False"
| "str_contains pat (Some s) = contiene pat s"

text \<open>
  \<^verbatim>\<open>pd.to_numeric(..., errors="coerce")\<close> on one cell. \<open>floatify\<close> is the library's
  conversion of a \<^verbatim>\<open>str\<close> to a number, \<open>None\<close> when the text is not a number.
\<close>

fun to_numeric :: "(string \<Rightarrow> 'n option) \<Rightarrow> 'n celda \<Rightarrow> 'n celda" where
  "to_numeric floatify Nulo = Nulo"
| "to_numeric floatify (Num x) = Num x"
| "to_numeric floatify (Texto s) = (case floatify s of None \<Rightarrow> Nulo | Some x \<Rightarrow> Num x)"

text \<open>\<^verbatim>\<open>fillna("")\<close> on one cell of a text column.\<close>

fun fillna :: "string option \<Rightarrow> string" where
  "fillna None = []"
| "fillna (Some s) = s"

text \<open>
  \<^verbatim>\<open>fillna("").astype(str)\<close> on one cell of the street-number column. \<open>py_str\<close> is
  Python's \<^verbatim>\<open>str\<close> on a number.
\<close>

fun fillna_astype_str :: "('n \<Rightarrow> string) \<Rightarrow> 'n celda \<Rightarrow> string" where
  "fillna_astype_str py_str Nulo = []"
| "fillna_astype_str py_str (Num x) = py_str x"
| "fillna_astype_str py_str (Texto s) = s"

text \<open>The address of a row (lines 29 to 33).\<close>

definition direccion :: "('n \<Rightarrow> string) \<Rightarrow> ('n, 'a) fila_csv_scheme \<Rightarrow> string" where
  "direccion py_str r =
     strip (fillna (TipoViaGlosa r) @ '' '' @ fillna (NombreVia r) @ '' ''
            @ fillna_astype_str py_str (Numero r))"

text \<open>
  The address as the specification words it: the three fields, each empty when missing,
  joined with single spaces (Python's \<^verbatim>\<open>" ".join\<close>), then trimmed.
\<close>

fun join :: "string \<Rightarrow> string list \<Rightarrow> string" where
  "join sep [] = []"
| "join sep [x] = x"
| "join sep (x # y # ys) = x @ sep @ join sep (y # ys)"

definition direccion_spec :: "('n \<Rightarrow> string) \<Rightarrow> ('n, 'a) fila_csv_scheme \<Rightarrow> string" where
  "direccion_spec py_str r =
     strip (join '' '' [fillna (TipoViaGlosa r), fillna (NombreVia r),
                       fillna_astype_str py_str (Numero r)])"

text \<open>
  The loader. Two of its steps can fail. The accessor \<^verbatim>\<open>.str\<close> of line 22 refuses a
  column that is not of text, so a file with rows and no region in any of them raises
  \<^verbatim>\<open>AttributeError\<close>. The first \<^verbatim>\<open>+\<close> of line 30 adds the text \<^verbatim>\<open>" "\<close> to the
  street-type column after \<^verbatim>\<open>fillna("")\<close>: when no row was selected there is no cell
  to fill, the column keeps its type, and a column of type \<^verbatim>\<open>float64\<close> raises
  \<^verbatim>\<open>UFuncTypeError\<close>; with a row selected the filled column is of text. The other
  operands are added to a column of text, or made text by \<^verbatim>\<open>astype(str)\<close>, and the
  conversions of lines 25 and 26 and the classifier have no failing case.
\<close>

definition cargar_datos ::
  "(string \<Rightarrow> 'n option) \<Rightarrow> ('n \<Rightarrow> string) \<Rightarrow> 'n fila_csv list
   \<Rightarrow> excepcion + 'n establecimiento list" where
  "cargar_datos floatify py_str df =
     (if es_float64 (map RegionGlosa df) then Inl AttributeError
      else
        (let df_rm = filter (\<lambda>r. str_contains ''Metropolitana'' (RegionGlosa r)) df;
             df_rm = map (\<lambda>r. r\<lparr>Latitud := to_numeric floatify (Latitud r)\<rparr>) df_rm;
             df_rm = map (\<lambda>r. r\<lparr>Longitud := to_numeric floatify (Longitud r)\<rparr>) df_rm
         in if df_rm = [] \<and> es_float64 (map TipoViaGlosa df) then Inl UFuncTypeError
            else Inr (map (\<lambda>r. fila_csv.extend r
                             (establecimiento.fields (direccion py_str r)
                                (clasificar (DependenciaAdministrativa r)))) df_rm)))"

subsection \<open>The map and the table (lines 179 to 206)\<close>

text \<open>\<^verbatim>\<open>dropna(subset=["Latitud", "Longitud"])\<close>.\<close>

definition df_mapa :: "'n establecimiento list \<Rightarrow> 'n establecimiento list" where
  "df_mapa df_filtrado = filter (\<lambda>r. Latitud r \<noteq> Nulo \<and> Longitud r \<noteq> Nulo) df_filtrado"

text \<open>What the map column shows: a notice when no row has coordinates, else the points.\<close>

datatype 'n vista_mapa = Sin_coordenadas | Mapa "('n celda \<times> 'n celda) list"

definition col_mapa :: "'n establecimiento list \<Rightarrow> 'n vista_mapa" where
  "col_mapa df_filtrado =
     (let m = df_mapa df_filtrado
      in if m = [] then Sin_coordenadas else Mapa (map (\<lambda>r. (Latitud r, Longitud r)) m))"

text \<open>The rows of the table below the map, with its seven columns, in the order listed.\<close>

definition tabla ::
  "'n establecimiento list \<Rightarrow>
   (string option \<times> string option \<times> string option \<times> string \<times> string \<times> string option
    \<times> 'n celda) list" where
  "tabla df_filtrado =
     map (\<lambda>r. (EstablecimientoGlosa r, TipoEstablecimientoGlosa r, ComunaGlosa r, Direccion r,
               SistemaSalud r, NivelAtencionEstabglosa r, TelefonoMovil_TelefonoFijo r))
       df_filtrado"

subsection \<open>The filters and the sort (lines 126 to 160)\<close>

text \<open>\<^verbatim>\<open>Series.dropna()\<close> on a text column.\<close>

fun dropna :: "'a option list \<Rightarrow> 'a list" where
  "dropna [] = []"
| "dropna (None # xs) = dropna xs"
| "dropna (Some x # xs) = x # dropna xs"

text \<open>
  The options of a multi-select (lines 126 to 129):
  \<^verbatim>\<open>sorted(df[col].dropna().unique())\<close>.
\<close>

definition opciones :: "string option list \<Rightarrow> string list" where
  "opciones columna = sort (remdups (dropna columna))"

text \<open>
  The two choices of the select box \<^verbatim>\<open>Ordenar por\<close> and the two of the radio
  buttons for the direction; \<open>A_Z\<close> is the label that starts with \<^verbatim>\<open>A\<close>, the one
  for which \<^verbatim>\<open>orden_dir.startswith("A")\<close> holds.
\<close>

datatype campo_orden = Nombre | Comuna

datatype sentido = A_Z | Z_A

text \<open>The state of the sidebar's controls.\<close>

record seleccion =
  nombre_filtro :: string
  comunas_sel :: "string list"
  tipos_sel :: "string list"
  sistemas_sel :: "string list"
  niveles_sel :: "string list"
  orden_campo :: campo_orden
  orden_dir :: sentido

text \<open>
  The controls as the script creates them (lines 131 to 140): no text, and every
  multi-select with \<^verbatim>\<open>default\<close> set to all its options.
\<close>

definition seleccion_inicial :: "'n establecimiento list \<Rightarrow> campo_orden \<Rightarrow> sentido \<Rightarrow> seleccion" where
  "seleccion_inicial df campo dir =
     \<lparr>nombre_filtro = [],
      comunas_sel = opciones (map ComunaGlosa df),
      tipos_sel = opciones (map TipoEstablecimientoGlosa df),
      sistemas_sel = opciones (map (\<lambda>r. Some (SistemaSalud r)) df),
      niveles_sel = opciones (map NivelAtencionEstabglosa df),
      orden_campo = campo, orden_dir = dir\<rparr>"

text \<open>
  \<^verbatim>\<open>Series.isin(values)\<close> on one cell, for a list of strings: a missing value is
  in no such list.
\<close>

fun isin :: "string option \<Rightarrow> string list \<Rightarrow> bool" where
  "isin None valores = False"
| "isin (Some v) valores = (v \<in> set valores)"

text \<open>
  \<^verbatim>\<open>Series.str.contains(pat, case=False, na=False)\<close> on one cell, \<open>search\<close> being the
  compiled pattern.
\<close>

fun str_contains_re :: "(string \<Rightarrow> bool) \<Rightarrow> string option \<Rightarrow> bool" where
  "str_contains_re search None = False"
| "str_contains_re search (Some s) = search s"

text \<open>
  Lines 146 to 158. The text of the search box is a regular expression for pandas:
  \<open>re_compile\<close> is \<^verbatim>\<open>re.compile(pat, re.IGNORECASE)\<close>, which gives the search
  predicate of the pattern, or nothing when the text is not a valid pattern, and then
  pandas raises.
\<close>

definition filtrar ::
  "(string \<Rightarrow> (string \<Rightarrow> bool) option) \<Rightarrow> 'n establecimiento list \<Rightarrow> seleccion
   \<Rightarrow> excepcion + 'n establecimiento list" where
  "filtrar re_compile df sel =
     (let df_filtrado = df;
          paso = (if nombre_filtro sel \<noteq> [] then
                    (case re_compile (nombre_filtro sel) of
                       None \<Rightarrow> Inl PatternError
                     | Some search \<Rightarrow>
                         Inr (filter (\<lambda>r. str_contains_re search (EstablecimientoGlosa r))
                                df_filtrado))
                  else Inr df_filtrado)
      in case paso of
           Inl e \<Rightarrow> Inl e
         | Inr df_filtrado \<Rightarrow>
             Inr (filter (\<lambda>r. isin (ComunaGlosa r) (comunas_sel sel)
                              \<and> isin (TipoEstablecimientoGlosa r) (tipos_sel sel)
                              \<and> isin (Some (SistemaSalud r)) (sistemas_sel sel)
                              \<and> isin (NivelAtencionEstabglosa r) (niveles_sel sel))
                    df_filtrado))"

text \<open>
  \<^verbatim>\<open>DataFrame.sort_values(by=col, ascending=asc)\<close> on a text column, as pandas computes
  it: the rows with a missing key are set apart and go last, in their order; the other
  keys are handed to \<open>argsort\<close>, which is numpy's \<^verbatim>\<open>argsort(kind="quicksort")\<close>, the
  default \<^verbatim>\<open>kind\<close>; for a descending sort the keys are reversed before the call and
  the positions after it.
\<close>

definition sort_values ::
  "(string list \<Rightarrow> nat list) \<Rightarrow> ('r \<Rightarrow> string option) \<Rightarrow> bool \<Rightarrow> 'r list \<Rightarrow> 'r list" where
  "sort_values argsort col ascending df =
     (let items = map col df;
          idx = [0..<length df];
          non_nan_idx = filter (\<lambda>i. items ! i \<noteq> None) idx;
          nan_idx = filter (\<lambda>i. items ! i = None) idx;
          non_nan_idx = (if ascending then non_nan_idx else rev non_nan_idx);
          non_nans = dropna (map (\<lambda>i. items ! i) non_nan_idx);
          indexer = map (\<lambda>j. non_nan_idx ! j) (argsort non_nans);
          indexer = (if ascending then indexer else rev indexer)
      in map (\<lambda>i. df ! i) (indexer @ nan_idx))"

text \<open>Lines 142 and 143.\<close>

definition columna_orden :: "seleccion \<Rightarrow> ('n, 'a) establecimiento_scheme \<Rightarrow> string option" where
  "columna_orden sel = (if orden_campo sel = Nombre then EstablecimientoGlosa else ComunaGlosa)"

definition asc :: "seleccion \<Rightarrow> bool" where
  "asc sel = (if orden_dir sel = A_Z then True else False)"

text \<open>Lines 146 to 160: the filters, then the sort.\<close>

definition filtrar_ordenar ::
  "(string \<Rightarrow> (string \<Rightarrow> bool) option) \<Rightarrow> (string list \<Rightarrow> nat list)
   \<Rightarrow> 'n establecimiento list \<Rightarrow> seleccion \<Rightarrow> excepcion + 'n establecimiento list" where
  "filtrar_ordenar re_compile argsort df sel =
     (case filtrar re_compile df sel of
        Inl e \<Rightarrow> Inl e
      | Inr df_filtrado \<Rightarrow> Inr (sort_values argsort (columna_orden sel) (asc sel) df_filtrado))"


text \<open>
  numpy's \<^verbatim>\<open>npy_aquicksort\<close>, the routine behind \<^verbatim>\<open>argsort(kind="quicksort")\<close> for an
  array of Python objects, which is what a text column of pandas 2 is. \<open>v\<close> holds the keys
  and \<open>tosort\<close> the positions being put in order; keys are compared with Python's
  \<^verbatim>\<open><\<close>. A segment of more than sixteen positions (the test is
  \<^verbatim>\<open>pr - pl > SMALL_QUICKSORT\<close>, the constant being 15) is split around the median of
  its first, middle and last key by a two-sided scan that exchanges positions, also
  those with equal keys; a shorter segment is sorted by insertion. The routine keeps a
  depth count, twice the position of the highest bit of the length, and hands a segment
  taken from its stack with the count exhausted to \<^verbatim>\<open>npy_aheapsort\<close>, which is a
  parameter here.
\<close>

definition intp_swap :: "nat list \<Rightarrow> nat \<Rightarrow> nat \<Rightarrow> nat list" where
  "intp_swap tosort i j = tosort[i := tosort ! j, j := tosort ! i]"

text \<open>The number of times a length can be halved before it reaches zero, less one.\<close>

fun npy_get_msb :: "nat \<Rightarrow> nat" where
  "npy_get_msb n = (if n < 2 then 0 else Suc (npy_get_msb (n div 2)))"

text \<open>
  The insertion sort at the end of the routine: each position moves left past the
  positions whose key is greater than its own. \<open>insertar\<close> works on the part already
  sorted, held in reverse.
\<close>

fun insertar :: "string list \<Rightarrow> nat \<Rightarrow> nat list \<Rightarrow> nat list" where
  "insertar v vi [] = [vi]"
| "insertar v vi (k # ks) = (if v ! vi < v ! k then k # insertar v vi ks else vi # k # ks)"

definition insertion_sort :: "string list \<Rightarrow> nat list \<Rightarrow> nat list" where
  "insertion_sort v tosort = rev (foldl (\<lambda>hecho vi. insertar v vi hecho) [] tosort)"

text \<open>
  The two scans of the partition: \<^verbatim>\<open>do ++pi; while (v[*pi] < vp)\<close> and
  \<^verbatim>\<open>do --pj; while (vp < v[*pj])\<close>. The routine for objects also ends a scan where it
  meets the other pointer, a guard against comparisons that are not an order; the keys
  here are texts, whose order is total, and the scans are written without the guard.
\<close>

definition avanzar :: "string list \<Rightarrow> string \<Rightarrow> nat list \<Rightarrow> nat \<Rightarrow> nat" where
  "avanzar v vp tosort pi =
     pi + 1 + length (takeWhile (\<lambda>k. v ! k < vp) (drop (pi + 1) tosort))"

definition retroceder :: "string list \<Rightarrow> string \<Rightarrow> nat list \<Rightarrow> nat \<Rightarrow> nat" where
  "retroceder v vp tosort pj =
     pj - 1 - length (takeWhile (\<lambda>k. vp < v ! k) (rev (take pj tosort)))"

text \<open>The loop of the partition: scan, stop when the scans meet, else exchange and go on.\<close>

function particion :: "string list \<Rightarrow> string \<Rightarrow> nat list \<Rightarrow> nat \<Rightarrow> nat \<Rightarrow> nat list \<times> nat" where
  "particion v vp tosort pi pj =
     (let pi = avanzar v vp tosort pi;
          pj = retroceder v vp tosort pj
      in if pi \<ge> pj then (tosort, pi)
         else particion v vp (intp_swap tosort pi pj) pi pj)"
  by pat_completeness auto
termination
  by (relation "measure (\<lambda>(v, vp, tosort, pi, pj). pj)") (auto simp: retroceder_def avanzar_def)

declare particion.simps [simp del]

text \<open>
  One pass over a segment of more than sixteen positions: the median of three, the
  pivot parked at \<open>pr - 1\<close>, the two-sided scan, and the pivot put in its place \<open>pi\<close>.
  The scan from the left cannot pass the parked pivot; the bound \<open>min pi (pr - 1)\<close>
  writes that into the definition.
\<close>

definition partir :: "string list \<Rightarrow> nat list \<Rightarrow> nat list \<times> nat" where
  "partir v tosort =
     (let pr = length tosort - 1;
          pm = pr div 2;
          t = (if v ! (tosort ! pm) < v ! (tosort ! 0) then intp_swap tosort pm 0 else tosort);
          t = (if v ! (t ! pr) < v ! (t ! pm) then intp_swap t pr pm else t);
          t = (if v ! (t ! pm) < v ! (t ! 0) then intp_swap t pm 0 else t);
          vp = v ! (t ! pm);
          t = intp_swap t pm (pr - 1);
          (t, pi) = particion v vp t 0 (pr - 1);
          pi = min pi (pr - 1)
      in (intp_swap t pi (pr - 1), pi))"

text \<open>
  The routine on one segment. \<open>sacado\<close> tells whether the segment was taken from the
  stack, where the depth count is tested. Of the two parts the larger goes on the stack
  and the smaller is worked on at once.
\<close>

function aquicksort ::
  "(string list \<Rightarrow> nat list \<Rightarrow> nat list) \<Rightarrow> string list \<Rightarrow> bool \<Rightarrow> int \<Rightarrow> nat list \<Rightarrow> nat list" where
  "aquicksort aheapsort v sacado cdepth tosort =
     (if sacado \<and> cdepth < 0 then aheapsort v tosort
      else if length tosort - 1 > 15 then
        (let (t, pi) = partir v tosort;
             pr = length tosort - 1;
             izquierda = take pi t;
             derecha = drop (Suc pi) t
         in if pi < pr - pi
            then aquicksort aheapsort v False (cdepth - 1) izquierda @ [t ! pi]
                 @ aquicksort aheapsort v True (cdepth - 1) derecha
            else aquicksort aheapsort v True (cdepth - 1) izquierda @ [t ! pi]
                 @ aquicksort aheapsort v False (cdepth - 1) derecha)
      else insertion_sort v tosort)"
  by pat_completeness auto
termination
proof -
  have len: "length (fst (particion v vp t pi pj)) = length t" for v vp t pi pj
  proof (induction v vp t pi pj rule: particion.induct)
    case (1 v vp tosort pi pj)
    show ?case
      apply (subst particion.simps)
      using 1 by (simp add: Let_def intp_swap_def)
  qed
  have partir_len: "length (fst (partir v t)) = length t" for v t
    by (simp add: partir_def Let_def intp_swap_def split_def len)
  have partir_pi: "snd (partir v t) \<le> length t - 1 - 1" for v t
    by (simp add: partir_def Let_def split_def)
  show ?thesis
  proof (relation "measure (\<lambda>(h, v, s, c, tosort). length tosort)", goal_cases)
    case 1
    show ?case by simp
  next
    case (2 aheapsort v sacado cdepth tosort x t pi pr izquierda derecha)
    have "pi \<le> length tosort - 1 - 1"
      using partir_pi [of v tosort] 2(3,4) by (metis snd_conv)
    moreover have "length izquierda \<le> pi" using 2(6) by simp
    moreover have "16 < length tosort" using 2(2) by simp
    ultimately show ?case by simp
  next
    case (3 aheapsort v sacado cdepth tosort x t pi pr izquierda derecha)
    have "length t = length tosort"
      using partir_len [of v tosort] 3(3,4) by (metis fst_conv)
    moreover have "length derecha = length t - Suc pi" using 3(7) by simp
    moreover have "16 < length tosort" using 3(2) by simp
    ultimately show ?case by simp
  next
    case (4 aheapsort v sacado cdepth tosort x t pi pr izquierda derecha)
    have "pi \<le> length tosort - 1 - 1"
      using partir_pi [of v tosort] 4(3,4) by (metis snd_conv)
    moreover have "length izquierda \<le> pi" using 4(6) by simp
    moreover have "16 < length tosort" using 4(2) by simp
    ultimately show ?case by simp
  next
    case (5 aheapsort v sacado cdepth tosort x t pi pr izquierda derecha)
    have "length t = length tosort"
      using partir_len [of v tosort] 5(3,4) by (metis fst_conv)
    moreover have "length derecha = length t - Suc pi" using 5(7) by simp
    moreover have "16 < length tosort" using 5(2) by simp
    ultimately show ?case by simp
  qed
qed

declare aquicksort.simps [simp del]

text \<open>The routine on a whole array of keys: the positions start in order.\<close>

definition npy_aquicksort ::
  "(string list \<Rightarrow> nat list \<Rightarrow> nat list) \<Rightarrow> string list \<Rightarrow> nat list" where
  "npy_aquicksort aheapsort v =
     aquicksort aheapsort v True (2 * int (npy_get_msb (length v))) [0..<length v]"

text \<open>
  A pattern compiler for the examples: the text taken literally, compared without regard
  to case, as \<^verbatim>\<open>re.compile\<close> does with a text that has no metacharacter.
\<close>

definition re_compile_literal :: "string \<Rightarrow> (string \<Rightarrow> bool) option" where
  "re_compile_literal pat = Some (\<lambda>s. contiene (lower pat) (lower s))"

text \<open>
  The two variables of the script that lines 146 to 160 read and write, and those lines
  as a step on them. An exception leaves the script before any assignment.
\<close>

record 'n variables =
  var_df :: "'n establecimiento list"
  var_df_filtrado :: "'n establecimiento list"

definition aplicar_filtros ::
  "(string \<Rightarrow> (string \<Rightarrow> bool) option) \<Rightarrow> (string list \<Rightarrow> nat list) \<Rightarrow> seleccion
   \<Rightarrow> 'n variables \<Rightarrow> excepcion + 'n variables" where
  "aplicar_filtros re_compile argsort sel v =
     (case filtrar_ordenar re_compile argsort (var_df v) sel of
        Inl e \<Rightarrow> Inl e
      | Inr resultado \<Rightarrow> Inr (v\<lparr>var_df_filtrado := resultado\<rparr>))"

subsection \<open>The client of the REST endpoint (\<^verbatim>\<open>consultar_api_datos_gob\<close>, lines 55 to 82)\<close>

text \<open>
  A value as \<^verbatim>\<open>r.json()\<close> decodes it: \<^verbatim>\<open>None\<close>, a \<^verbatim>\<open>bool\<close>, a number, a
  \<^verbatim>\<open>str\<close>, a \<^verbatim>\<open>list\<close> or a \<^verbatim>\<open>dict\<close>, whose keys are distinct and kept in order.
  Numbers are whole numbers here; a number with a fraction takes the same branches of the
  client as a whole number that is not zero.
\<close>

datatype json = JNull | JBool bool | JNum int | JStr string | JArr "json list"
  | JObj "(string \<times> json) list"

text \<open>Python's truth value of such a value, as \<^verbatim>\<open>not x\<close> tests it.\<close>

fun truthy :: "json \<Rightarrow> bool" where
  "truthy JNull = False"
| "truthy (JBool b) = b"
| "truthy (JNum n) = (n \<noteq> 0)"
| "truthy (JStr s) = (s \<noteq> [])"
| "truthy (JArr xs) = (xs \<noteq> [])"
| "truthy (JObj kvs) = (kvs \<noteq> [])"

text \<open>
  \<^verbatim>\<open>x.get(key, default)\<close>: the method of a \<^verbatim>\<open>dict\<close>; any other decoded value has
  no attribute \<^verbatim>\<open>get\<close>.
\<close>

fun py_get :: "json \<Rightarrow> string \<Rightarrow> json \<Rightarrow> excepcion + json" where
  "py_get (JObj kvs) key dflt =
     Inr (case map_of kvs key of None \<Rightarrow> dflt | Some v \<Rightarrow> v)"
| "py_get _ key dflt = Inl AttributeError"

text \<open>
  The length of the index of \<^verbatim>\<open>pd.DataFrame(data)\<close> for a decoded value, or the
  exception that the constructor raises, after the constructor of pandas 2:
  \<^item> a list whose first element is a \<^verbatim>\<open>dict\<close> is a list of records, one row each,
    and every element must have \<^verbatim>\<open>keys\<close>;
  \<^item> a list whose first element is a list is a list of rows, and every element must
    have a length;
  \<^item> any other list is one column, one row for each element;
  \<^item> a \<^verbatim>\<open>dict\<close> is a mapping from column names to columns: the lists among its
    values must have one length, which is the number of rows; a \<^verbatim>\<open>dict\<close> among
    them gives its keys as the index and cannot be mixed with lists; values that are
    all scalars are refused;
  \<^item> \<^verbatim>\<open>None\<close> gives the empty table, and another scalar is refused.
\<close>

fun es_dict :: "json \<Rightarrow> bool" where
  "es_dict (JObj kvs) = True"
| "es_dict _ = False"

fun tiene_len :: "json \<Rightarrow> bool" where
  "tiene_len (JStr s) = True"
| "tiene_len (JArr xs) = True"
| "tiene_len (JObj kvs) = True"
| "tiene_len _ = False"

fun raw_lengths :: "json list \<Rightarrow> nat list" where
  "raw_lengths [] = []"
| "raw_lengths (JArr xs # vs) = length xs # raw_lengths vs"
| "raw_lengths (_ # vs) = raw_lengths vs"

fun indexes :: "json list \<Rightarrow> string list list" where
  "indexes [] = []"
| "indexes (JObj kvs # vs) = map fst kvs # indexes vs"
| "indexes (_ # vs) = indexes vs"

definition extract_index :: "json list \<Rightarrow> excepcion + nat" where
  "extract_index vals =
     (if vals = [] then Inr 0
      else if indexes vals = [] \<and> raw_lengths vals = [] then Inl ValueError
      else (case remdups (raw_lengths vals) of
              [] \<Rightarrow> Inr (length (remdups (concat (indexes vals))))
            | [n] \<Rightarrow> if indexes vals \<noteq> [] then Inl ValueError else Inr n
            | _ \<Rightarrow> Inl ValueError))"

fun len_DataFrame :: "json \<Rightarrow> excepcion + nat" where
  "len_DataFrame JNull = Inr 0"
| "len_DataFrame (JArr []) = Inr 0"
| "len_DataFrame (JArr (JObj kvs # rs)) =
     (if list_all es_dict rs then Inr (Suc (length rs)) else Inl AttributeError)"
| "len_DataFrame (JArr (JArr xs # rs)) =
     (if list_all tiene_len rs then Inr (Suc (length rs)) else Inl TypeError)"
| "len_DataFrame (JArr (r # rs)) = Inr (Suc (length rs))"
| "len_DataFrame (JObj kvs) = extract_index (map snd kvs)"
| "len_DataFrame _ = Inl ValueError"

text \<open>A table built by pandas: the value it was built from and the length of its index.\<close>

record dataframe =
  df_data :: json
  df_len :: nat

definition pd_DataFrame :: "json \<Rightarrow> excepcion + dataframe" where
  "pd_DataFrame d =
     (case len_DataFrame d of
        Inl e \<Rightarrow> Inl e
      | Inr n \<Rightarrow> Inr \<lparr>df_data = d, df_len = n\<rparr>)"

text \<open>
  What \<^verbatim>\<open>requests.get\<close> gives: an exception of the family
  \<^verbatim>\<open>RequestException\<close> (no connection, time-out), with its text, or a response with
  its status code and with what \<^verbatim>\<open>r.json()\<close> makes of its body: a decoded value, or
  nothing when the body is not JSON, and then \<^verbatim>\<open>r.json()\<close> raises.
\<close>

datatype respuesta = RequestException string | Response int "json option"

text \<open>
  The notices the client shows: \<^verbatim>\<open>st.error\<close> with the text of the exception,
  \<^verbatim>\<open>st.error\<close> with the status code, \<^verbatim>\<open>st.warning\<close> for a response marked
  unsuccessful, and \<^verbatim>\<open>st.info\<close> for a response without records.
\<close>

datatype aviso = Error_conexion string | Error_status int | Warning_success_false
  | Info_sin_registros

definition url :: string where
  "url = ''https://datos.gob.cl/api/3/action/datastore_search''"

text \<open>
  The client. \<open>requests_get\<close> stands for the network: it takes the address, the two
  parameters \<^verbatim>\<open>resource_id\<close> and \<^verbatim>\<open>limit\<close>, and the time-out. Only the call of
  \<^verbatim>\<open>requests.get\<close> is inside the \<^verbatim>\<open>try\<close>. The result is the list of the
  notices shown and the value returned, \<open>None\<close> for no data, or the exception raised.
\<close>

definition consultar_api_datos_gob ::
  "(string \<Rightarrow> string \<Rightarrow> int \<Rightarrow> nat \<Rightarrow> respuesta) \<Rightarrow> string \<Rightarrow> int
   \<Rightarrow> aviso list \<times> (excepcion + dataframe option)" where
  "consultar_api_datos_gob requests_get resource_id limit =
     (case requests_get url resource_id limit 10 of
        RequestException e \<Rightarrow> ([Error_conexion e], Inr None)
      | Response status_code body \<Rightarrow>
          if status_code \<noteq> 200 then ([Error_status status_code], Inr None)
          else
            (case body of
               None \<Rightarrow> ([], Inl JSONDecodeError)
             | Some data \<Rightarrow>
                 (case py_get data ''success'' (JBool False) of
                    Inl e \<Rightarrow> ([], Inl e)
                  | Inr success \<Rightarrow>
                      if \<not> truthy success then ([Warning_success_false], Inr None)
                      else
                        (case py_get data ''result'' (JObj []) of
                           Inl e \<Rightarrow> ([], Inl e)
                         | Inr result \<Rightarrow>
                             (case py_get result ''records'' (JArr []) of
                                Inl e \<Rightarrow> ([], Inl e)
                              | Inr records \<Rightarrow>
                                  if \<not> truthy records then ([Info_sin_registros], Inr None)
                                  else
                                    (case pd_DataFrame records of
                                       Inl e \<Rightarrow> ([], Inl e)
                                     | Inr tabla_api \<Rightarrow> ([], Inr (Some tabla_api))))))))"

subsection \<open>Example data\<close>

text \<open>A row of the file with nothing in any cell.\<close>

definition fila_vacia :: "'n fila_csv" where
  "fila_vacia =
     \<lparr>RegionGlosa = None, ComunaGlosa = None, EstablecimientoGlosa = None,
      TipoEstablecimientoGlosa = None, NivelAtencionEstabglosa = None,
      DependenciaAdministrativa = Nulo, TipoViaGlosa = None, NombreVia = None,
      Numero = Nulo, Latitud = Nulo, Longitud = Nulo, TelefonoMovil_TelefonoFijo = Nulo\<rparr>"

text \<open>
  The conversions between numbers and text, for whole numbers from zero on, written in
  decimal digits: Python's \<^verbatim>\<open>str\<close> and the reading of such a text as a number.
\<close>

fun str_nat :: "nat \<Rightarrow> string" where
  "str_nat n =
     (if n < 10 then [char_of (48 + n)] else str_nat (n div 10) @ [char_of (48 + n mod 10)])"

definition es_digito :: "char \<Rightarrow> bool" where
  "es_digito c = (let n = (of_char c :: nat) in 48 \<le> n \<and> n \<le> 57)"

definition floatify_nat :: "string \<Rightarrow> nat option" where
  "floatify_nat s =
     (if s \<noteq> [] \<and> list_all es_digito s
      then Some (foldl (\<lambda>a c. 10 * a + (of_char c - 48)) 0 s) else None)"

text \<open>
  A row of the file in the region, with the given name and commune, and the same type and
  care level throughout; the table that the loader returns on such rows; and two small
  tables.
\<close>

definition fila_rm :: "string option \<Rightarrow> string option \<Rightarrow> nat fila_csv" where
  "fila_rm nombre comuna =
     fila_vacia\<lparr>RegionGlosa := Some ''Metropolitana de Santiago'',
                EstablecimientoGlosa := nombre, ComunaGlosa := comuna,
                TipoEstablecimientoGlosa := Some ''Hospital'',
                NivelAtencionEstabglosa := Some ''Primario''\<rparr>"

definition cargar_ejemplo :: "nat fila_csv list \<Rightarrow> nat establecimiento list" where
  "cargar_ejemplo filas = projr (cargar_datos floatify_nat str_nat filas)"

definition df_ab :: "nat establecimiento list" where
  "df_ab = cargar_ejemplo
     [fila_rm (Some ''Beta'') (Some ''Maipu''), fila_rm (Some ''Alpha'') (Some ''Maipu'')]"

definition df_sin_comuna :: "nat establecimiento list" where
  "df_sin_comuna = cargar_ejemplo
     [fila_rm (Some ''Posta Rural'') None, fila_rm (Some ''Hospital'') (Some ''Maipu'')]"

text \<open>
  Eighteen establishments of the one commune \<^verbatim>\<open>Maipu\<close>, named \<^verbatim>\<open>A\<close> to \<^verbatim>\<open>R\<close> in
  load order.
\<close>

definition df_maipu :: "nat establecimiento list" where
  "df_maipu = cargar_ejemplo
     (map (\<lambda>c. fila_rm (Some [c]) (Some ''Maipu'')) ''ABCDEFGHIJKLMNOPQR'')"

text \<open>A network that gives the same outcome to every request.\<close>

definition red_fija :: "respuesta \<Rightarrow> string \<Rightarrow> string \<Rightarrow> int \<Rightarrow> nat \<Rightarrow> respuesta" where
  "red_fija r direccion_web resource_id limit timeout = r"

text \<open>
  Three bodies: one in the shape the endpoint documents, with two records; one whose
  records are an object with one empty column; one with an empty list of records.
\<close>

definition cuerpo_dos_registros :: json where
  "cuerpo_dos_registros =
     JObj [(''success'', JBool True),
           (''result'', JObj [(''records'',
              JArr [JObj [(''_id'', JNum 1), (''nombre'', JStr ''Hospital El Pino'')],
                    JObj [(''_id'', JNum 2), (''nombre'', JStr ''Posta Central'')]])])]"

definition cuerpo_columna_vacia :: json where
  "cuerpo_columna_vacia =
     JObj [(''success'', JBool True),
           (''result'', JObj [(''records'', JObj [(''nombre'', JArr [])])])]"

definition cuerpo_sin_registros :: json where
  "cuerpo_sin_registros =
     JObj [(''success'', JBool True), (''result'', JObj [(''records'', JArr [])])]"

section \<open>Properties\<close>

subsection \<open>Strings\<close>



subsection \<open>The sector classifier\<close>

text \<open>
  Claim C4. The classifier is a total function of the administrative-dependency cell
  alone: whatever the cell holds, the result is one of the three labels \<open>Publico\<close>,
  \<open>Privado\<close> and \<open>Otro\<close>, and a missing value or a number (an input that is not a
  \<^verbatim>\<open>str\<close>) gives \<open>Otro\<close>. Being a function of its argument, it gives the same label
  to the same cell.
\<close>

theorem clasificar_total:
  "clasificar dep \<in> {Publico, Privado, Otro}
   \<and> clasificar Nulo = Otro \<and> clasificar (Num n) = Otro"
  by (cases dep) (simp_all add: Let_def)

text \<open>
  Claim C5. A text whose lower-cased form contains the marker \<^verbatim>\<open>privad\<close> and the
  marker \<^verbatim>\<open>municipal\<close> is classified \<open>Privado\<close>: the private rule is tried first.
\<close>

theorem clasificar_privado_primero:
  "contiene ''privad'' (lower dep) \<Longrightarrow> contiene ''municipal'' (lower dep)
   \<Longrightarrow> clasificar (Texto dep) = Privado"
  by (simp add: Let_def)

theorem clasificar_privado_primero_witness:
  "contiene ''privad'' (lower ''Corporacion Municipal PRIVADA'')
   \<and> contiene ''municipal'' (lower ''Corporacion Municipal PRIVADA'')
   \<and> clasificar (Texto ''Corporacion Municipal PRIVADA'' :: nat celda) = Privado"
proof -
  have p: "contiene ''privad'' (lower ''Corporacion Municipal PRIVADA'')"
    by code_simp
  have m: "contiene ''municipal'' (lower ''Corporacion Municipal PRIVADA'')"
    by code_simp
  show ?thesis
    using p m clasificar_privado_primero [OF p m] by simp
qed

subsection \<open>The loader\<close>

lemmas fila_defs = fila_csv.defs establecimiento.defs

text \<open>
  The loader row by row: the two exceptions, and else the rows of the region, each with
  its derived cells.
\<close>

lemma cargar_datos_eq:
  "cargar_datos fl ps df =
     (if es_float64 (map RegionGlosa df) then Inl AttributeError
      else if filter (\<lambda>r. str_contains ''Metropolitana'' (RegionGlosa r)) df = []
              \<and> es_float64 (map TipoViaGlosa df) then Inl UFuncTypeError
      else Inr (map (\<lambda>r. fila_csv.extend
                  (r\<lparr>Latitud := to_numeric fl (Latitud r), Longitud := to_numeric fl (Longitud r)\<rparr>)
                  (establecimiento.fields (direccion ps r)
                     (clasificar (DependenciaAdministrativa r))))
             (filter (\<lambda>r. str_contains ''Metropolitana'' (RegionGlosa r)) df)))"
  by (simp add: cargar_datos_def Let_def direccion_def comp_def)

lemma cargar_datos_Inr:
  "cargar_datos fl ps df = Inr out \<Longrightarrow>
     out = map (\<lambda>r. fila_csv.extend
                  (r\<lparr>Latitud := to_numeric fl (Latitud r), Longitud := to_numeric fl (Longitud r)\<rparr>)
                  (establecimiento.fields (direccion ps r)
                     (clasificar (DependenciaAdministrativa r))))
             (filter (\<lambda>r. str_contains ''Metropolitana'' (RegionGlosa r)) df)"
  by (simp add: cargar_datos_eq split: if_splits)

text \<open>
  A file with a row of the region loads without exception, and the examples are tables
  that the loader returns.
\<close>

lemma cargar_datos_con_fila:
  "filter (\<lambda>r. str_contains ''Metropolitana'' (RegionGlosa r)) df \<noteq> []
   \<Longrightarrow> \<exists>out. cargar_datos fl ps df = Inr out"
proof -
  assume f: "filter (\<lambda>r. str_contains ''Metropolitana'' (RegionGlosa r)) df \<noteq> []"
  then obtain r where r: "r \<in> set df" "str_contains ''Metropolitana'' (RegionGlosa r)"
    by (metis (mono_tags, lifting) filter_False)
  then have "RegionGlosa r \<noteq> None" by (cases "RegionGlosa r") simp_all
  then have "\<not> es_float64 (map RegionGlosa df)"
    using r(1) by (auto simp: es_float64_def list_all_iff)
  then show ?thesis using f by (simp add: cargar_datos_eq)
qed

lemma cargar_ejemplo_Inr:
  "filter (\<lambda>r. str_contains ''Metropolitana'' (RegionGlosa r)) filas \<noteq> []
   \<Longrightarrow> cargar_datos floatify_nat str_nat filas = Inr (cargar_ejemplo filas)"
  using cargar_datos_con_fila [of filas floatify_nat str_nat]
  by (auto simp: cargar_ejemplo_def)

lemma ejemplos_cargados:
  "cargar_datos floatify_nat str_nat
     [fila_rm (Some ''Beta'') (Some ''Maipu''), fila_rm (Some ''Alpha'') (Some ''Maipu'')]
     = Inr df_ab
   \<and> cargar_datos floatify_nat str_nat
     [fila_rm (Some ''Posta Rural'') None, fila_rm (Some ''Hospital'') (Some ''Maipu'')]
     = Inr df_sin_comuna
   \<and> cargar_datos floatify_nat str_nat
     (map (\<lambda>c. fila_rm (Some [c]) (Some ''Maipu'')) ''ABCDEFGHIJKLMNOPQR'') = Inr df_maipu"
  by code_simp

text \<open>A file without rows loads as the empty table.\<close>

lemma cargar_datos_sin_filas: "cargar_datos fl ps [] = Inr []"
  by (simp add: cargar_datos_eq es_float64_def)


lemma strip_no_leading: "takeWhile isspace (strip s) = []"
proof -
  define t where "t = dropWhile isspace s"
  define u where "u = dropWhile isspace (rev t)"
  have t: "rev t = takeWhile isspace (rev t) @ u" by (simp add: u_def)
  then have "t = rev u @ rev (takeWhile isspace (rev t))"
    by (metis rev_append rev_rev_ident)
  then have "rev u \<noteq> [] \<Longrightarrow> hd (rev u) = hd t" by (metis hd_append2)
  moreover have "t \<noteq> [] \<Longrightarrow> \<not> isspace (hd t)" unfolding t_def by (rule hd_dropWhile)
  moreover have "rev u \<noteq> [] \<Longrightarrow> t \<noteq> []" using t by auto
  ultimately have "rev u = [] \<or> \<not> isspace (hd (rev u))" by auto
  then have "takeWhile isspace (rev u) = []" by (cases "rev u") auto
  then show ?thesis by (simp add: strip_def t_def u_def)
qed

lemma strip_no_trailing: "takeWhile isspace (rev (strip s)) = []"
proof -
  have "takeWhile isspace (dropWhile isspace xs) = []" for xs :: string
    by (induction xs) auto
  then show ?thesis by (simp add: strip_def)
qed




text \<open>
  Claim C7. Making a coordinate numeric has no failing case: the result is a missing
  value or a number, never an exception (the function has no error result) and never a
  text, and whether the loader raises does not depend on the coordinates of the file nor
  on the conversion. When the conversion of a text \<open>s\<close> fails, the coordinate of the
  loaded row is missing and the row is still in the loaded table: a file of one row of
  the region with latitude \<open>s\<close> loads, without exception, as one row with a missing
  latitude, which the table shows and the map does not. In general the coordinate columns
  of the table that the loader returns are the coerced columns of the kept rows, the map
  holds exactly the rows with both coordinates present, and the table has every row.
\<close>

theorem coordenadas_coerce:
  "floatify s = None \<Longrightarrow>
     map_sum id (map Latitud) (cargar_datos floatify ps
        [r\<lparr>RegionGlosa := Some ''Metropolitana'', Latitud := Texto s\<rparr>]) = Inr [Nulo]
   \<and> map_sum id (map Longitud) (cargar_datos floatify ps
        [r\<lparr>RegionGlosa := Some ''Metropolitana'', Longitud := Texto s\<rparr>]) = Inr [Nulo]
   \<and> map_sum id col_mapa (cargar_datos floatify ps
        [r\<lparr>RegionGlosa := Some ''Metropolitana'', Latitud := Texto s\<rparr>]) = Inr Sin_coordenadas
   \<and> map_sum id (\<lambda>df. length (tabla df)) (cargar_datos floatify ps
        [r\<lparr>RegionGlosa := Some ''Metropolitana'', Latitud := Texto s\<rparr>]) = Inr 1
   \<and> (cargar_datos floatify ps df = Inr out \<longrightarrow>
        map Latitud out
          = map (\<lambda>r. to_numeric floatify (Latitud r))
              (filter (\<lambda>r. str_contains ''Metropolitana'' (RegionGlosa r)) df)
        \<and> map Longitud out
          = map (\<lambda>r. to_numeric floatify (Longitud r))
              (filter (\<lambda>r. str_contains ''Metropolitana'' (RegionGlosa r)) df))
   \<and> isl (cargar_datos floatify ps (map (\<lambda>r. r\<lparr>Latitud := la r, Longitud := lo r\<rparr>) df))
       = isl (cargar_datos floatify' ps' df)
   \<and> (case to_numeric floatify c of Texto t \<Rightarrow> False | _ \<Rightarrow> True)
   \<and> set (df_mapa dff) = {e \<in> set dff. Latitud e \<noteq> Nulo \<and> Longitud e \<noteq> Nulo}
   \<and> length (tabla dff) = length dff"
  apply (intro conjI)
  subgoal by (simp add: cargar_datos_eq es_float64_def fila_defs)
  subgoal by (simp add: cargar_datos_eq es_float64_def fila_defs)
  subgoal by (simp add: cargar_datos_eq es_float64_def fila_defs col_mapa_def df_mapa_def)
  subgoal by (simp add: cargar_datos_eq es_float64_def tabla_def)
  subgoal by (auto dest!: cargar_datos_Inr simp: fila_defs comp_def)
  subgoal by (simp add: cargar_datos_eq comp_def filter_map)
  subgoal by (cases c) (simp_all split: option.split)
  subgoal by (auto simp: df_mapa_def)
  subgoal by (simp add: tabla_def)
  done

lemma floatify_nat_not_a_number: "floatify_nat ''not-a-number'' = None"
  by code_simp

theorem coordenadas_coerce_witness:
  "floatify_nat ''not-a-number'' = None
   \<and> map_sum id (map Latitud) (cargar_datos floatify_nat str_nat
        [fila_rm (Some ''Posta'') (Some ''Maipu'')
           \<lparr>RegionGlosa := Some ''Metropolitana'', Latitud := Texto ''not-a-number''\<rparr>]) = Inr [Nulo]
   \<and> map_sum id col_mapa (cargar_datos floatify_nat str_nat
        [fila_rm (Some ''Posta'') (Some ''Maipu'')
           \<lparr>RegionGlosa := Some ''Metropolitana'', Latitud := Texto ''not-a-number''\<rparr>]) = Inr Sin_coordenadas
   \<and> map_sum id (\<lambda>df. length (tabla df)) (cargar_datos floatify_nat str_nat
        [fila_rm (Some ''Posta'') (Some ''Maipu'')
           \<lparr>RegionGlosa := Some ''Metropolitana'', Latitud := Texto ''not-a-number''\<rparr>]) = Inr 1"
proof -
  note h = floatify_nat_not_a_number
  note t = coordenadas_coerce [where floatify = floatify_nat and s = "''not-a-number''"
      and ps = str_nat and r = "fila_rm (Some ''Posta'') (Some ''Maipu'')", OF h]
  show ?thesis
    using h t [THEN conjunct1] t [THEN conjunct2, THEN conjunct2, THEN conjunct1]
      t [THEN conjunct2, THEN conjunct2, THEN conjunct2, THEN conjunct1]
    by simp
qed

text \<open>
  Claim C8, as amended. The address of every row of the table that the loader returns is
  the street type, the street name and the number, each empty when missing, joined with
  single spaces and then trimmed: it has no white space at its start or at its end.
  Nothing is said of the spaces inside: an empty field in the middle leaves the two
  joining spaces side by side.
\<close>

theorem direccion_unida_y_recortada:
  "(cargar_datos fl ps df = Inr out \<longrightarrow>
      map Direccion out
        = map (direccion_spec ps)
            (filter (\<lambda>r. str_contains ''Metropolitana'' (RegionGlosa r)) df))
   \<and> direccion ps r = direccion_spec ps r
   \<and> takeWhile isspace (direccion ps r) = []
   \<and> takeWhile isspace (rev (direccion ps r)) = []"
  apply (intro conjI)
  subgoal
    by (auto dest!: cargar_datos_Inr simp: fila_defs comp_def direccion_def direccion_spec_def)
  subgoal by (simp add: direccion_def direccion_spec_def)
  subgoal by (simp add: direccion_def strip_no_leading)
  subgoal by (simp add: direccion_def strip_no_trailing)
  done

text \<open>
  The amended claim on a file of one row of the region, of street type \<^verbatim>\<open>Avenida\<close>,
  street name \<^verbatim>\<open>Pajaritos\<close> and number 123.
\<close>

theorem direccion_unida_y_recortada_witness:
  "cargar_datos floatify_nat str_nat
      [fila_vacia\<lparr>RegionGlosa := Some ''Metropolitana'', TipoViaGlosa := Some ''Avenida'',
                  NombreVia := Some ''Pajaritos'', Numero := Num 123\<rparr>]
     = Inr (cargar_ejemplo
         [fila_vacia\<lparr>RegionGlosa := Some ''Metropolitana'', TipoViaGlosa := Some ''Avenida'',
                     NombreVia := Some ''Pajaritos'', Numero := Num 123\<rparr>])
   \<and> map Direccion (cargar_ejemplo
         [fila_vacia\<lparr>RegionGlosa := Some ''Metropolitana'', TipoViaGlosa := Some ''Avenida'',
                     NombreVia := Some ''Pajaritos'', Numero := Num 123\<rparr>])
     = map (direccion_spec str_nat)
         (filter (\<lambda>r. str_contains ''Metropolitana'' (RegionGlosa r))
            [fila_vacia\<lparr>RegionGlosa := Some ''Metropolitana'', TipoViaGlosa := Some ''Avenida'',
                        NombreVia := Some ''Pajaritos'', Numero := Num 123\<rparr>])
   \<and> map Direccion (cargar_ejemplo
         [fila_vacia\<lparr>RegionGlosa := Some ''Metropolitana'', TipoViaGlosa := Some ''Avenida'',
                     NombreVia := Some ''Pajaritos'', Numero := Num 123\<rparr>])
     = [''Avenida Pajaritos 123'']"
proof -
  let ?df = "[fila_vacia\<lparr>RegionGlosa := Some ''Metropolitana'', TipoViaGlosa := Some ''Avenida'',
                         NombreVia := Some ''Pajaritos'', Numero := Num 123\<rparr>] :: nat fila_csv list"
  have h: "cargar_datos floatify_nat str_nat ?df = Inr (cargar_ejemplo ?df)"
    by code_simp
  have e: "map Direccion (cargar_ejemplo ?df) = [''Avenida Pajaritos 123'']"
    by code_simp
  note t = direccion_unida_y_recortada [where fl = floatify_nat and ps = str_nat
      and df = "?df" and out = "cargar_ejemplo ?df", THEN conjunct1, rule_format, OF h]
  show ?thesis using h e t by (intro conjI)
qed

text \<open>
  Claim C8 as stated fails: a row with street type \<^verbatim>\<open>Avenida\<close>, no street name and
  number 123 gets an address with two consecutive spaces.
\<close>

theorem direccion_espacios_consecutivos:
  "map_sum id (map Direccion) (cargar_datos floatify_nat str_nat
      [fila_vacia\<lparr>RegionGlosa := Some ''Metropolitana'', TipoViaGlosa := Some ''Avenida'',
                  Numero := Num 123\<rparr>]) = Inr [''Avenida  123'']
   \<and> contiene ''  '' ''Avenida  123''"
  by code_simp

subsection \<open>The filters and the sort\<close>


lemma dropna_none: "dropna (replicate m None) = []"
  by (induction m) auto

lemma dropna_append: "dropna (xs @ ys) = dropna xs @ dropna ys"
  by (induction xs rule: dropna.induct) auto

lemma dropna_map_Some: "dropna (map Some xs) = xs"
  by (induction xs) auto





























text \<open>
  Equal keys: sixteen stay in their order, sorted by insertion; seventeen and eighteen
  are split once, and the scan exchanges them.
\<close>

lemma npy_aquicksort_claves_iguales:
  "npy_aquicksort insertion_sort (replicate 16 ''Maipu'') = [0..<16]
   \<and> map (\<lambda>i. ''ABCDEFGHIJKLMNOPQ'' ! i)
        (npy_aquicksort insertion_sort (replicate 17 ''Maipu'')) = ''AONMLKJPIGFEDCBHQ''
   \<and> map (\<lambda>i. ''ABCDEFGHIJKLMNOPQR'' ! i)
        (npy_aquicksort insertion_sort (replicate 18 ''Maipu'')) = ''APONMLKJIHGFEDCBQR''"
  by code_simp



lemma filtrar_Inr:
  "nombre_filtro sel = [] \<or> rc (nombre_filtro sel) \<noteq> None \<Longrightarrow> \<exists>dff. filtrar rc df sel = Inr dff"
  by (auto simp: filtrar_def Let_def split: option.splits)






text \<open>
  With the controls as the script creates them, the filters keep the rows that have a
  commune, a type and a care level, and drop the others.
\<close>

lemma set_dropna: "set (dropna xs) = {x. Some x \<in> set xs}"
  by (induction xs rule: dropna.induct) auto

lemma isin_opciones:
  "r \<in> set df \<Longrightarrow> isin (f r) (opciones (map f df)) \<longleftrightarrow> f r \<noteq> None"
proof (cases "f r")
  case None
  then show ?thesis by simp
next
  case (Some v)
  assume "r \<in> set df"
  then have "Some v \<in> set (map f df)" using Some by (metis image_eqI set_map)
  then show ?thesis using Some by (simp add: opciones_def set_dropna)
qed

lemma filtrar_inicial:
  "filtrar rc df (seleccion_inicial df c d)
     = Inr (filter (\<lambda>r. ComunaGlosa r \<noteq> None \<and> TipoEstablecimientoGlosa r \<noteq> None
                       \<and> NivelAtencionEstabglosa r \<noteq> None) df)"
proof -
  have "filter (\<lambda>r. isin (ComunaGlosa r) (opciones (map ComunaGlosa df))
                  \<and> isin (TipoEstablecimientoGlosa r) (opciones (map TipoEstablecimientoGlosa df))
                  \<and> isin (Some (SistemaSalud r)) (opciones (map (\<lambda>r. Some (SistemaSalud r)) df))
                  \<and> isin (NivelAtencionEstabglosa r) (opciones (map NivelAtencionEstabglosa df))) df
        = filter (\<lambda>r. ComunaGlosa r \<noteq> None \<and> TipoEstablecimientoGlosa r \<noteq> None
                       \<and> NivelAtencionEstabglosa r \<noteq> None) df"
  proof (rule filter_cong [OF refl])
    fix r assume r: "r \<in> set df"
    have s: "isin (Some (SistemaSalud r)) (opciones (map (\<lambda>r. Some (SistemaSalud r)) df))"
      using isin_opciones [OF r, of "\<lambda>r. Some (SistemaSalud r)"] by simp
    show "(isin (ComunaGlosa r) (opciones (map ComunaGlosa df))
                  \<and> isin (TipoEstablecimientoGlosa r) (opciones (map TipoEstablecimientoGlosa df))
                  \<and> isin (Some (SistemaSalud r)) (opciones (map (\<lambda>r. Some (SistemaSalud r)) df))
                  \<and> isin (NivelAtencionEstabglosa r) (opciones (map NivelAtencionEstabglosa df)))
          = (ComunaGlosa r \<noteq> None \<and> TipoEstablecimientoGlosa r \<noteq> None
                       \<and> NivelAtencionEstabglosa r \<noteq> None)"
      using s isin_opciones [OF r, of ComunaGlosa] isin_opciones [OF r, of TipoEstablecimientoGlosa]
        isin_opciones [OF r, of NivelAtencionEstabglosa] by simp
  qed
  then show ?thesis by (simp add: filtrar_def seleccion_inicial_def)
qed

text \<open>
  Claim C2, on the code. The table \<open>df_sin_comuna\<close> has two rows, the first without
  commune. With every control as the script creates it, the filters return the second
  row only.
\<close>

theorem filtro_inicial_descarta_nulos:
  "length df_sin_comuna = 2
   \<and> map EstablecimientoGlosa df_sin_comuna = [Some ''Posta Rural'', Some ''Hospital'']
   \<and> map_sum id (map EstablecimientoGlosa)
       (filtrar re_compile_literal df_sin_comuna (seleccion_inicial df_sin_comuna Nombre A_Z))
     = Inr [Some ''Hospital'']"
  by code_simp

text \<open>
  Claim C9. A run of the filters and the sort that succeeds writes \<open>df_filtrado\<close> and
  leaves \<open>df\<close> as it was; a second run from the variables the first run left gives the
  same variables again; and the result does not depend on what \<open>df_filtrado\<close> held
  before.
\<close>

theorem aplicar_filtros_puro:
  "aplicar_filtros rc srt sel v = Inr v' \<Longrightarrow>
     var_df v' = var_df v
     \<and> aplicar_filtros rc srt sel v' = Inr v'
     \<and> aplicar_filtros rc srt sel (v\<lparr>var_df_filtrado := x\<rparr>) = Inr v'"
  by (auto simp: aplicar_filtros_def split: sum.splits)

theorem aplicar_filtros_puro_witness:
  "aplicar_filtros re_compile_literal (npy_aquicksort insertion_sort)
      (seleccion_inicial df_ab Nombre A_Z)
      \<lparr>var_df = df_ab, var_df_filtrado = []\<rparr> = Inr \<lparr>var_df = df_ab, var_df_filtrado = rev df_ab\<rparr>
   \<and> var_df \<lparr>var_df = df_ab, var_df_filtrado = rev df_ab\<rparr> = var_df \<lparr>var_df = df_ab, var_df_filtrado = []\<rparr>
   \<and> aplicar_filtros re_compile_literal (npy_aquicksort insertion_sort)
        (seleccion_inicial df_ab Nombre A_Z)
        \<lparr>var_df = df_ab, var_df_filtrado = rev df_ab\<rparr> = Inr \<lparr>var_df = df_ab, var_df_filtrado = rev df_ab\<rparr>"
proof -
  have h: "aplicar_filtros re_compile_literal (npy_aquicksort insertion_sort)
      (seleccion_inicial df_ab Nombre A_Z)
      \<lparr>var_df = df_ab, var_df_filtrado = []\<rparr> = Inr \<lparr>var_df = df_ab, var_df_filtrado = rev df_ab\<rparr>"
    by code_simp
  show ?thesis using h aplicar_filtros_puro [OF h, of "[]"] by simp
qed


subsection \<open>The client of the REST endpoint\<close>

text \<open>
  Claim C1, as amended. For each of the four outcomes the client provides for, it returns
  no data, shows exactly one notice, and raises nothing: a failed request gives the
  connection notice; a status code other than 200 gives the status notice, whatever the
  body; a body that is an object whose \<^verbatim>\<open>success\<close> is absent or false gives the
  warning; and such a body with a true \<^verbatim>\<open>success\<close>, whose \<^verbatim>\<open>result\<close> is absent
  or an object and whose \<^verbatim>\<open>records\<close> are absent or empty, gives the information
  notice.
\<close>

theorem consultar_sin_datos_con_aviso:
  "(requests_get url rid lim 10 = RequestException e
      \<longrightarrow> consultar_api_datos_gob requests_get rid lim = ([Error_conexion e], Inr None))
   \<and> (requests_get url rid lim 10 = Response status body \<and> status \<noteq> 200
      \<longrightarrow> consultar_api_datos_gob requests_get rid lim = ([Error_status status], Inr None))
   \<and> (requests_get url rid lim 10 = Response 200 (Some (JObj kvs))
       \<and> \<not> truthy (case map_of kvs ''success'' of None \<Rightarrow> JBool False | Some v \<Rightarrow> v)
      \<longrightarrow> consultar_api_datos_gob requests_get rid lim = ([Warning_success_false], Inr None))
   \<and> (requests_get url rid lim 10 = Response 200 (Some (JObj kvs))
       \<and> truthy (case map_of kvs ''success'' of None \<Rightarrow> JBool False | Some v \<Rightarrow> v)
       \<and> (case map_of kvs ''result'' of None \<Rightarrow> JObj [] | Some v \<Rightarrow> v) = JObj res
       \<and> \<not> truthy (case map_of res ''records'' of None \<Rightarrow> JArr [] | Some v \<Rightarrow> v)
      \<longrightarrow> consultar_api_datos_gob requests_get rid lim = ([Info_sin_registros], Inr None))"
  by (simp add: consultar_api_datos_gob_def)

theorem consultar_sin_datos_con_aviso_witness:
  "consultar_api_datos_gob (red_fija (RequestException ''timeout'')) ''abc'' 30
     = ([Error_conexion ''timeout''], Inr None)
   \<and> consultar_api_datos_gob (red_fija (Response 404 None)) ''abc'' 30
     = ([Error_status 404], Inr None)
   \<and> consultar_api_datos_gob
       (red_fija (Response 200 (Some (JObj [(''success'', JBool False)])))) ''abc'' 30
     = ([Warning_success_false], Inr None)
   \<and> consultar_api_datos_gob
       (red_fija (Response 200 (Some (JObj [(''success'', JBool True),
              (''result'', JObj [(''records'', JArr [])])])))) ''abc'' 30
     = ([Info_sin_registros], Inr None)"
proof (intro conjI)
  show "consultar_api_datos_gob (red_fija (RequestException ''timeout'')) ''abc'' 30
     = ([Error_conexion ''timeout''], Inr None)"
    using consultar_sin_datos_con_aviso
      [of "red_fija (RequestException ''timeout'')" "''abc''" 30 "''timeout''"]
    by (simp add: red_fija_def)
  show "consultar_api_datos_gob (red_fija (Response 404 None)) ''abc'' 30
     = ([Error_status 404], Inr None)"
    using consultar_sin_datos_con_aviso
      [of "red_fija (Response 404 None)" "''abc''" 30 _ 404 None]
    by (simp add: red_fija_def)
  show "consultar_api_datos_gob
       (red_fija (Response 200 (Some (JObj [(''success'', JBool False)])))) ''abc'' 30
     = ([Warning_success_false], Inr None)"
    using consultar_sin_datos_con_aviso
      [of "red_fija (Response 200 (Some (JObj [(''success'', JBool False)])))" "''abc''" 30
        _ _ _ "[(''success'', JBool False)]"]
    by (simp add: red_fija_def)
  show "consultar_api_datos_gob
       (red_fija (Response 200 (Some (JObj [(''success'', JBool True),
              (''result'', JObj [(''records'', JArr [])])])))) ''abc'' 30
     = ([Info_sin_registros], Inr None)"
    using consultar_sin_datos_con_aviso
      [of "red_fija (Response 200 (Some (JObj [(''success'', JBool True),
              (''result'', JObj [(''records'', JArr [])])])))" "''abc''" 30
        _ _ _ "[(''success'', JBool True), (''result'', JObj [(''records'', JArr [])])]"
        "[(''records'', JArr [])]"]
    by (simp add: red_fija_def)
qed

text \<open>
  Claim C1 as stated fails for a malformed body. With status 200, a body that is not
  JSON makes \<^verbatim>\<open>r.json()\<close> raise outside the \<^verbatim>\<open>try\<close>; a body that is a list has no
  \<^verbatim>\<open>get\<close>; and neither has a \<^verbatim>\<open>result\<close> that is \<^verbatim>\<open>null\<close>. In each case the
  client shows no notice and the exception reaches the caller.
\<close>

theorem consultar_cuerpo_mal_formado:
  "consultar_api_datos_gob (red_fija (Response 200 None)) ''abc'' 30
     = ([], Inl JSONDecodeError)
   \<and> consultar_api_datos_gob (red_fija (Response 200 (Some (JArr [])))) ''abc'' 30
     = ([], Inl AttributeError)
   \<and> consultar_api_datos_gob
       (red_fija (Response 200 (Some (JObj [(''success'', JBool True), (''result'', JNull)]))))
       ''abc'' 30 = ([], Inl AttributeError)"
  by (simp add: consultar_api_datos_gob_def red_fija_def)

lemma len_DataFrame_JArr:
  "len_DataFrame (JArr rs) = Inr n \<Longrightarrow> n = length rs"
  by (induction "JArr rs" rule: len_DataFrame.induct) (auto split: if_splits)

text \<open>
  Claim C10, as amended. Whenever the client returns a table built from a list of
  records, the table has one row for each record and at least one row, an empty list
  having been turned into no data before. And for a response in the documented shape,
  with a non-empty list of records that are all objects, the client does return that
  table, without any notice.
\<close>

theorem consultar_tabla_no_vacia:
  "(snd (consultar_api_datos_gob requests_get rid lim) = Inr (Some t)
       \<and> df_data t = JArr rs
      \<longrightarrow> df_len t = length rs \<and> 0 < df_len t)
   \<and> (requests_get url rid lim 10 = Response 200 (Some (JObj kvs))
       \<and> map_of kvs ''success'' = Some (JBool True)
       \<and> map_of kvs ''result'' = Some (JObj res)
       \<and> map_of res ''records'' = Some (JArr (JObj r # rs'))
       \<and> list_all es_dict rs'
      \<longrightarrow> consultar_api_datos_gob requests_get rid lim
          = ([], Inr (Some \<lparr>df_data = JArr (JObj r # rs'), df_len = Suc (length rs')\<rparr>)))"
proof (intro conjI impI)
  assume "snd (consultar_api_datos_gob requests_get rid lim) = Inr (Some t)
          \<and> df_data t = JArr rs"
  then show "df_len t = length rs"
    by (auto simp: consultar_api_datos_gob_def pd_DataFrame_def
             split: respuesta.splits if_splits option.splits sum.splits
             dest: len_DataFrame_JArr)
next
  assume "snd (consultar_api_datos_gob requests_get rid lim) = Inr (Some t)
          \<and> df_data t = JArr rs"
  then show "0 < df_len t"
    by (auto simp: consultar_api_datos_gob_def pd_DataFrame_def
             split: respuesta.splits if_splits option.splits sum.splits
             dest: len_DataFrame_JArr)
next
  assume "requests_get url rid lim 10 = Response 200 (Some (JObj kvs))
       \<and> map_of kvs ''success'' = Some (JBool True)
       \<and> map_of kvs ''result'' = Some (JObj res)
       \<and> map_of res ''records'' = Some (JArr (JObj r # rs'))
       \<and> list_all es_dict rs'"
  then show "consultar_api_datos_gob requests_get rid lim
          = ([], Inr (Some \<lparr>df_data = JArr (JObj r # rs'), df_len = Suc (length rs')\<rparr>))"
    by (simp add: consultar_api_datos_gob_def pd_DataFrame_def)
qed

theorem consultar_tabla_no_vacia_witness:
  "consultar_api_datos_gob (red_fija (Response 200 (Some cuerpo_dos_registros))) ''abc'' 30
     = ([], Inr (Some \<lparr>df_data =
          JArr [JObj [(''_id'', JNum 1), (''nombre'', JStr ''Hospital El Pino'')],
                JObj [(''_id'', JNum 2), (''nombre'', JStr ''Posta Central'')]],
          df_len = 2\<rparr>))
   \<and> df_len \<lparr>df_data =
          JArr [JObj [(''_id'', JNum 1), (''nombre'', JStr ''Hospital El Pino'')],
                JObj [(''_id'', JNum 2), (''nombre'', JStr ''Posta Central'')]],
          df_len = 2\<rparr> = 2"
proof -
  note t = consultar_tabla_no_vacia
    [where requests_get = "red_fija (Response 200 (Some cuerpo_dos_registros))"
       and rid = "''abc''" and lim = 30
       and kvs = "[(''success'', JBool True),
               (''result'', JObj [(''records'',
                  JArr [JObj [(''_id'', JNum 1), (''nombre'', JStr ''Hospital El Pino'')],
                        JObj [(''_id'', JNum 2), (''nombre'', JStr ''Posta Central'')]])])]"
       and res = "[(''records'',
                  JArr [JObj [(''_id'', JNum 1), (''nombre'', JStr ''Hospital El Pino'')],
                        JObj [(''_id'', JNum 2), (''nombre'', JStr ''Posta Central'')]])]"
       and r = "[(''_id'', JNum 1), (''nombre'', JStr ''Hospital El Pino'')]"
       and rs' = "[JObj [(''_id'', JNum 2), (''nombre'', JStr ''Posta Central'')]]"
       and t = "\<lparr>df_data =
          JArr [JObj [(''_id'', JNum 1), (''nombre'', JStr ''Hospital El Pino'')],
                JObj [(''_id'', JNum 2), (''nombre'', JStr ''Posta Central'')]],
          df_len = 2\<rparr>"
       and rs = "[JObj [(''_id'', JNum 1), (''nombre'', JStr ''Hospital El Pino'')],
                JObj [(''_id'', JNum 2), (''nombre'', JStr ''Posta Central'')]]"]
  have a: "consultar_api_datos_gob (red_fija (Response 200 (Some cuerpo_dos_registros)))
             ''abc'' 30
     = ([], Inr (Some \<lparr>df_data =
          JArr [JObj [(''_id'', JNum 1), (''nombre'', JStr ''Hospital El Pino'')],
                JObj [(''_id'', JNum 2), (''nombre'', JStr ''Posta Central'')]],
          df_len = 2\<rparr>))"
    using t [THEN conjunct2] by (simp add: red_fija_def cuerpo_dos_registros_def)
  note u = t [THEN conjunct1]
  show ?thesis using a u by simp
qed

text \<open>
  Claim C10 as stated fails. When the records of the response are an object whose one
  column is an empty list, the records are not empty for Python, and pandas builds from
  them a table with that column and no row; the client returns it.
\<close>

theorem consultar_tabla_vacia:
  "consultar_api_datos_gob (red_fija (Response 200 (Some cuerpo_columna_vacia))) ''abc'' 30
     = ([], Inr (Some \<lparr>df_data = JObj [(''nombre'', JArr [])], df_len = 0\<rparr>))"
  by (simp add: consultar_api_datos_gob_def red_fija_def cuerpo_columna_vacia_def
        pd_DataFrame_def extract_index_def)

end
